theory Spec2Isabelle
  imports Main
begin

section \<open>Text: Python strings and the string methods the validators call\<close>

text \<open>
  A Python \<open>str\<close> is modelled as a \<open>string\<close>: one \<open>char\<close> per code point, for the
  code points below 256 (Latin-1). The whitespace class is the one \<open>str.strip\<close>,
  \<open>str.split()\<close> and the regular expression class \<open>\s\<close> share on that range.
\<close>

text \<open>Code points are compared bit by bit, from the highest bit down.\<close>

fun char_bits :: "char \<Rightarrow> bool list" where
  "char_bits (Char b0 b1 b2 b3 b4 b5 b6 b7) = [b7, b6, b5, b4, b3, b2, b1, b0]"

fun bits_le :: "bool list \<Rightarrow> bool list \<Rightarrow> bool" where
  "bits_le (x # xs) (y # ys) = (if x = y then bits_le xs ys else y)"
| "bits_le xs ys = True"

definition code_le :: "char \<Rightarrow> char \<Rightarrow> bool" where
  "code_le a b = bits_le (char_bits a) (char_bits b)"

definition in_range :: "char \<Rightarrow> char \<Rightarrow> char \<Rightarrow> bool" where
  "in_range lo hi c \<longleftrightarrow> code_le lo c \<and> code_le c hi"

text \<open>Whitespace: 0x09-0x0D, 0x1C-0x20, 0x85 and 0xA0.\<close>

definition is_space :: "char \<Rightarrow> bool" where
  "is_space c \<longleftrightarrow>
     in_range (CHR 0x09) (CHR 0x0D) c \<or> in_range (CHR 0x1C) (CHR 0x20) c \<or>
     c = CHR 0x85 \<or> c = CHR 0xA0"

definition is_ascii_letter :: "char \<Rightarrow> bool" where
  "is_ascii_letter c \<longleftrightarrow>
     in_range (CHR ''A'') (CHR ''Z'') c \<or> in_range (CHR ''a'') (CHR ''z'') c"

definition is_digit :: "char \<Rightarrow> bool" where
  "is_digit c \<longleftrightarrow> in_range (CHR ''0'') (CHR ''9'') c"

text \<open>\<open>str.lower\<close> on one code point: A-Z, and the Latin-1 capitals 0xC0-0xDE but 0xD7,
  go to the code point 32 above (bit 5, clear in each of them, is set).\<close>

fun plus32 :: "char \<Rightarrow> char" where
  "plus32 (Char b0 b1 b2 b3 b4 b5 b6 b7) = Char b0 b1 b2 b3 b4 True b6 b7"

definition is_upper :: "char \<Rightarrow> bool" where
  "is_upper c \<longleftrightarrow>
     in_range (CHR ''A'') (CHR ''Z'') c \<or> (in_range (CHR 0xC0) (CHR 0xDE) c \<and> c \<noteq> CHR 0xD7)"

definition lower_char :: "char \<Rightarrow> char" where
  "lower_char c = (if is_upper c then plus32 c else c)"

definition lower :: "string \<Rightarrow> string" where
  "lower s = map lower_char s"

text \<open>\<open>str.strip()\<close>: whitespace removed at both ends.\<close>

definition lstrip :: "string \<Rightarrow> string" where
  "lstrip s = dropWhile is_space s"

definition rstrip :: "string \<Rightarrow> string" where
  "rstrip s = rev (dropWhile is_space (rev s))"

definition strip :: "string \<Rightarrow> string" where
  "strip s = rstrip (lstrip s)"

text \<open>\<open>s.split(sep)\<close> for a one-character separator: always at least one part.\<close>

fun split_on :: "char \<Rightarrow> string \<Rightarrow> string list" where
  "split_on sep [] = [[]]"
| "split_on sep (c # cs) =
     (if c = sep then [] # split_on sep cs
      else (case split_on sep cs of
              [] \<Rightarrow> [[c]]
            | p # ps \<Rightarrow> (c # p) # ps))"

text \<open>\<open>sep.join(parts)\<close>.\<close>

fun join :: "string \<Rightarrow> string list \<Rightarrow> string" where
  "join sep [] = []"
| "join sep [p] = p"
| "join sep (p # q # ps) = p @ sep @ join sep (q # ps)"

section \<open>Regular expressions: the backtracking matcher of Python's \<open>re\<close>\<close>

text \<open>
  The patterns of the validators use literals, character classes, sequence, alternation,
  the optional group, greedy and lazy repetition of one character class, named groups,
  the multiline anchors, the word boundary, and one-character negative look-behind and
  look-ahead. A pattern is a value of \<open>re\<close>; a flag such as IGNORECASE or DOTALL is
  written into the character classes of the pattern.

  The matcher stands in the text at a cursor: the character before it (\<open>None\<close> at the
  start of the text) and the text still ahead. \<open>rm r prev rest c\<close> lists every way \<open>r\<close>
  matches from the cursor \<open>(prev, rest)\<close>, in the order the backtracking matcher tries
  them: the cursor where the match ends and the groups captured, \<open>c\<close> being the groups
  captured before (a later capture of a name shadows an earlier one). The first of the
  list is the match \<open>re\<close> reports.
\<close>

type_synonym caps = "(string \<times> string) list"

datatype re =
    Eps
  | Ch "char \<Rightarrow> bool"
  | Seq re re
  | Alt re re
  | Opt re
  | Rep bool nat "char \<Rightarrow> bool"
  | Grp string re
  | Bol
  | Eol
  | NotBehind "char \<Rightarrow> bool"
  | NotAhead "char \<Rightarrow> bool"
  | WordB

text \<open>The cursors a repetition of the class \<open>p\<close> can stop at: after 0, 1, 2, ...
  characters of the class.\<close>

fun steps :: "(char \<Rightarrow> bool) \<Rightarrow> char option \<Rightarrow> string \<Rightarrow> (char option \<times> string) list" where
  "steps p prev [] = [(prev, [])]"
| "steps p prev (x # xs) = (prev, x # xs) # (if p x then steps p (Some x) xs else [])"

text \<open>\<open>\w\<close> on the modelled range: letters, digits and the underscore of ASCII, and the
  alphanumeric code points of Latin-1.\<close>

definition is_word :: "char \<Rightarrow> bool" where
  "is_word c \<longleftrightarrow>
     is_ascii_letter c \<or> is_digit c \<or> c = CHR ''_'' \<or>
     c \<in> set [CHR 0xAA, CHR 0xB2, CHR 0xB3, CHR 0xB5, CHR 0xB9, CHR 0xBA] \<or>
     in_range (CHR 0xBC) (CHR 0xBE) c \<or>
     (in_range (CHR 0xC0) (CHR 0xFF) c \<and> c \<noteq> CHR 0xD7 \<and> c \<noteq> CHR 0xF7)"

fun word_before :: "char option \<Rightarrow> bool" where
  "word_before None = False"
| "word_before (Some x) = is_word x"

fun word_ahead :: "string \<Rightarrow> bool" where
  "word_ahead [] = False"
| "word_ahead (x # xs) = is_word x"

fun rm :: "re \<Rightarrow> char option \<Rightarrow> string \<Rightarrow> caps \<Rightarrow> (char option \<times> string \<times> caps) list" where
  "rm Eps prev rest c = [(prev, rest, c)]"
| "rm (Ch p) prev [] c = []"
| "rm (Ch p) prev (x # xs) c = (if p x then [(Some x, xs, c)] else [])"
| "rm (Seq a b) prev rest c = concat (map (\<lambda>(q, s, d). rm b q s d) (rm a prev rest c))"
| "rm (Alt a b) prev rest c = rm a prev rest c @ rm b prev rest c"
| "rm (Opt a) prev rest c = rm a prev rest c @ [(prev, rest, c)]"
| "rm (Rep greedy mn p) prev rest c =
     map (\<lambda>(q, s). (q, s, c))
       (if greedy then rev (drop mn (steps p prev rest)) else drop mn (steps p prev rest))"
| "rm (Grp g a) prev rest c =
     map (\<lambda>(q, s, d). (q, s, (g, take (length rest - length s) rest) # d)) (rm a prev rest c)"
| "rm Bol None rest c = [(None, rest, c)]"
| "rm Bol (Some x) rest c = (if x = CHR 0x0A then [(Some x, rest, c)] else [])"
| "rm Eol prev [] c = [(prev, [], c)]"
| "rm Eol prev (x # xs) c = (if x = CHR 0x0A then [(prev, x # xs, c)] else [])"
| "rm (NotBehind p) None rest c = [(None, rest, c)]"
| "rm (NotBehind p) (Some x) rest c = (if p x then [] else [(Some x, rest, c)])"
| "rm (NotAhead p) prev [] c = [(prev, [], c)]"
| "rm (NotAhead p) prev (x # xs) c = (if p x then [] else [(prev, x # xs, c)])"
| "rm WordB prev rest c =
     (if word_before prev \<noteq> word_ahead rest then [(prev, rest, c)] else [])"

text \<open>A literal string, and the same under IGNORECASE.\<close>

fun lit :: "string \<Rightarrow> re" where
  "lit [] = Eps"
| "lit (x # xs) = Seq (Ch (\<lambda>c. c = x)) (lit xs)"

fun ilit :: "string \<Rightarrow> re" where
  "ilit [] = Eps"
| "ilit (x # xs) = Seq (Ch (\<lambda>c. lower_char c = lower_char x)) (ilit xs)"

text \<open>A match object: the text before the match (\<open>text[:m.start()]\<close>), the match
  (\<open>m.group(0)\<close>), the text after it (\<open>text[m.end():]\<close>) with the character before
  that, and the groups.\<close>

record rmatch =
  m_before :: string
  m_text :: string
  m_prev :: "char option"
  m_after :: string
  m_caps :: caps

text \<open>\<open>m.group(name)\<close>; \<open>None\<close> when the group took no part in the match.\<close>

definition m_group :: "rmatch \<Rightarrow> string \<Rightarrow> string option" where
  "m_group m g = map_of (m_caps m) g"

text \<open>\<open>pattern.search\<close> from a cursor, \<open>pre\<close> being the text behind the cursor: the
  first position where the pattern matches, with the match the backtracking finds first
  there.\<close>

fun search_at :: "re \<Rightarrow> string \<Rightarrow> char option \<Rightarrow> string \<Rightarrow> rmatch option" where
  "search_at r pre prev [] =
     (case rm r prev [] [] of
        [] \<Rightarrow> None
      | (q, s, d) # _ \<Rightarrow>
          Some \<lparr>m_before = pre, m_text = [], m_prev = q, m_after = s, m_caps = d\<rparr>)"
| "search_at r pre prev (x # xs) =
     (case rm r prev (x # xs) [] of
        [] \<Rightarrow> search_at r (pre @ [x]) (Some x) xs
      | (q, s, d) # _ \<Rightarrow>
          Some \<lparr>m_before = pre, m_text = take (length (x # xs) - length s) (x # xs),
                m_prev = q, m_after = s, m_caps = d\<rparr>)"

definition search :: "re \<Rightarrow> string \<Rightarrow> rmatch option" where
  "search r t = search_at r [] None t"

text \<open>Every match ends at a cursor further on in the same text.\<close>

definition cursor_after :: "char option \<Rightarrow> string \<Rightarrow> char option" where
  "cursor_after prev w = (if w = [] then prev else Some (last w))"

lemma cursor_after_append:
  "cursor_after (cursor_after prev u) v = cursor_after prev (u @ v)"
  by (simp add: cursor_after_def)

lemma steps_suffix:
  "(q, s) \<in> set (steps p prev rest) \<Longrightarrow> \<exists>w. rest = w @ s \<and> q = cursor_after prev w"
proof (induction rest arbitrary: prev)
  case Nil
  then show ?case by (simp add: cursor_after_def)
next
  case (Cons x xs)
  show ?case
  proof (cases "(q, s) = (prev, x # xs)")
    case True
    then show ?thesis by (simp add: cursor_after_def)
  next
    case False
    with Cons.prems have "p x" and "(q, s) \<in> set (steps p (Some x) xs)"
      by (auto split: if_splits)
    from Cons.IH [OF this(2)] obtain w where "xs = w @ s" "q = cursor_after (Some x) w"
      by blast
    then have "x # xs = (x # w) @ s \<and> q = cursor_after prev (x # w)"
      by (simp add: cursor_after_def)
    then show ?thesis by blast
  qed
qed

lemma rm_suffix:
  "(q, s, d) \<in> set (rm r prev rest c) \<Longrightarrow> \<exists>w. rest = w @ s \<and> q = cursor_after prev w"
proof (induction r arbitrary: prev rest c q s d)
  case Eps
  then show ?case by (simp add: cursor_after_def)
next
  case (Ch p)
  then show ?case
    by (cases rest) (auto simp: cursor_after_def split: if_splits)
next
  case (Seq a b)
  from Seq.prems obtain q1 s1 d1 where
    a: "(q1, s1, d1) \<in> set (rm a prev rest c)" and b: "(q, s, d) \<in> set (rm b q1 s1 d1)"
    by auto
  from Seq.IH(1) [OF a] obtain u where u: "rest = u @ s1" "q1 = cursor_after prev u" by blast
  from Seq.IH(2) [OF b] obtain v where v: "s1 = v @ s" "q = cursor_after q1 v" by blast
  from u v have "rest = (u @ v) @ s \<and> q = cursor_after prev (u @ v)"
    by (simp add: cursor_after_append)
  then show ?case by blast
next
  case (Alt a b)
  then show ?case by auto
next
  case (Opt a)
  from Opt.prems have "(q, s, d) \<in> set (rm a prev rest c) \<or> (q, s, d) = (prev, rest, c)"
    by auto
  then show ?case
  proof
    assume "(q, s, d) \<in> set (rm a prev rest c)"
    then show ?thesis by (rule Opt.IH)
  next
    assume "(q, s, d) = (prev, rest, c)"
    then have "rest = [] @ s \<and> q = cursor_after prev []" by (simp add: cursor_after_def)
    then show ?thesis by blast
  qed
next
  case (Rep greedy mn p)
  then have "(q, s) \<in> set (steps p prev rest)"
    by (auto split: if_splits dest: in_set_dropD)
  then show ?case by (rule steps_suffix)
next
  case (Grp g a)
  then show ?case by auto
next
  case Bol
  then show ?case by (cases prev) (auto simp: cursor_after_def split: if_splits)
next
  case Eol
  then show ?case by (cases rest) (auto simp: cursor_after_def split: if_splits)
next
  case (NotBehind p)
  then show ?case by (cases prev) (auto simp: cursor_after_def split: if_splits)
next
  case (NotAhead p)
  then show ?case by (cases rest) (auto simp: cursor_after_def split: if_splits)
next
  case WordB
  then show ?case by (auto simp: cursor_after_def split: if_splits)
qed

lemma rm_hd_suffix:
  "rm r prev rest c = (q, s, d) # xs \<Longrightarrow> \<exists>w. rest = w @ s \<and> q = cursor_after prev w"
  by (rule rm_suffix [of q s d r prev rest c]) simp

lemma search_at_parts:
  "search_at r pre prev rest = Some m \<Longrightarrow>
     m_before m @ m_text m @ m_after m = pre @ rest \<and> length pre \<le> length (m_before m)"
proof (induction rest arbitrary: pre prev)
  case Nil
  then show ?case
    by (auto split: list.splits dest!: rm_hd_suffix)
next
  case (Cons x xs)
  show ?case
  proof (cases "rm r prev (x # xs) []")
    case Nil
    with Cons.prems have "search_at r (pre @ [x]) (Some x) xs = Some m" by simp
    from Cons.IH [OF this] show ?thesis by simp
  next
    case (Cons y ys)
    obtain q s d where y: "y = (q, s, d)" by (cases y)
    from rm_hd_suffix [OF Cons [unfolded y]] obtain w where w: "x # xs = w @ s" by blast
    from Cons.prems Cons y
    have m: "m = \<lparr>m_before = pre, m_text = take (length (x # xs) - length s) (x # xs),
                  m_prev = q, m_after = s, m_caps = d\<rparr>"
      by simp
    have "take (length (x # xs) - length s) (x # xs) = w"
      by (simp only: w) simp
    with m w show ?thesis by simp
  qed
qed

text \<open>\<open>pattern.finditer(t)\<close>: the matches from left to right, each search starting where
  the match before ended (one position further after an empty match; no pattern the
  validators iterate matches the empty string).\<close>

function finditer_at :: "re \<Rightarrow> string \<Rightarrow> char option \<Rightarrow> string \<Rightarrow> rmatch list" where
  "finditer_at r pre prev rest =
     (case search_at r pre prev rest of
        None \<Rightarrow> []
      | Some m \<Rightarrow>
          m # (if m_text m \<noteq> [] then finditer_at r (m_before m @ m_text m) (m_prev m) (m_after m)
               else (case m_after m of
                       [] \<Rightarrow> []
                     | x # xs \<Rightarrow> finditer_at r (m_before m @ [x]) (Some x) xs)))"
  by pat_completeness auto
termination
proof (relation "measure (\<lambda>(r, pre, prev, rest). length rest)")
  show "wf (measure (\<lambda>(r, pre, prev, rest). length rest))" by simp
next
  fix r pre prev rest m
  assume "search_at r pre prev rest = Some m" and "m_text m \<noteq> []"
  from search_at_parts [OF this(1)] this(2)
  have "length (m_before m) + length (m_text m) + length (m_after m) = length pre + length rest"
    and "length pre \<le> length (m_before m)" and "length (m_text m) \<noteq> 0"
    by (auto dest: arg_cong [where f = length])
  then have "length (m_after m) < length rest" by linarith
  then show "((r, m_before m @ m_text m, m_prev m, m_after m), (r, pre, prev, rest))
      \<in> measure (\<lambda>(r, pre, prev, rest). length rest)"
    by simp
next
  fix r pre prev rest m x xs
  assume "search_at r pre prev rest = Some m" and "m_after m = x # xs"
  from search_at_parts [OF this(1)] this(2)
  have "length (m_before m) + length (m_text m) + Suc (length xs) = length pre + length rest"
    and "length pre \<le> length (m_before m)"
    by (auto dest: arg_cong [where f = length])
  then show "((r, m_before m @ [x], Some x, xs), (r, pre, prev, rest))
      \<in> measure (\<lambda>(r, pre, prev, rest). length rest)"
    by simp
qed

declare finditer_at.simps [simp del]

definition finditer :: "re \<Rightarrow> string \<Rightarrow> rmatch list" where
  "finditer r t = finditer_at r [] None t"

section \<open>The chess library: squares, pieces and the board\<close>

text \<open>
  The validators call python-chess for the board. A square is its index 0..63
  (\<open>a1 = 0\<close>, \<open>b1 = 1\<close>, ..., \<open>h8 = 63\<close>); \<open>chess.parse_square\<close> raises ValueError on
  a name that is not a square name. A board answers \<open>piece_at\<close> for every square. The
  decoder \<open>chess.Board(fen)\<close>, which raises ValueError on a string it cannot decode,
  is a parameter of the operations that call it (\<open>None\<close> is the ValueError).
\<close>

datatype piece_type = PAWN | KNIGHT | BISHOP | ROOK | QUEEN | KING

type_synonym piece = "piece_type \<times> bool"

type_synonym board = "nat \<Rightarrow> piece option"

type_synonym decoder = "string \<Rightarrow> board option"

definition FILE_NAMES :: string where
  "FILE_NAMES = ''abcdefgh''"

definition RANK_NAMES :: string where
  "RANK_NAMES = ''12345678''"

fun index_of :: "'a \<Rightarrow> 'a list \<Rightarrow> nat option" where
  "index_of x [] = None"
| "index_of x (y # ys) = (if x = y then Some 0 else map_option Suc (index_of x ys))"

fun parse_square :: "string \<Rightarrow> nat option" where
  "parse_square [f, r] =
     (case index_of f FILE_NAMES of
        None \<Rightarrow> None
      | Some x \<Rightarrow>
          (case index_of r RANK_NAMES of
             None \<Rightarrow> None
           | Some y \<Rightarrow> Some (8 * y + x)))"
| "parse_square name = None"


text \<open>\<open>board.pieces(piece_type, color)\<close>: the squares holding that piece.\<close>

definition pieces :: "board \<Rightarrow> piece_type \<Rightarrow> bool \<Rightarrow> nat list" where
  "pieces b pt col = filter (\<lambda>sq. b sq = Some (pt, col)) [0..<64]"

section \<open>evaluator.py: piece references\<close>

definition PIECE_NAMES :: "string \<Rightarrow> piece_type option" where
  "PIECE_NAMES = map_of
     [(''king'', KING), (''queen'', QUEEN), (''rook'', ROOK),
      (''bishop'', BISHOP), (''knight'', KNIGHT), (''pawn'', PAWN)]"


text \<open>
  \<^verbatim>\<open>_COLOR_PREFIX = r"(?:(?:white|black)['\u2019]?s?\s+)?"\<close>
  \<^verbatim>\<open>_ARTICLE = r"(?:the\s+|a\s+)?"\<close>
  \<^verbatim>\<open>_PIECE_WORD = r"(?P<piece>king|queen|rook|bishop|knight|pawn)"\<close>
  \<^verbatim>\<open>_ON = r"(?:\s+on)?\s+"\<close>
  \<^verbatim>\<open>_SQ = r"(?P<square>[a-h][1-8])"\<close>
  compiled together with IGNORECASE. The right single quotation mark U+2019 lies outside
  the modelled range, which leaves the apostrophe in its class.
\<close>

definition COLOR_PREFIX :: re where
  "COLOR_PREFIX =
     Opt (Seq (Alt (ilit ''white'') (ilit ''black''))
         (Seq (Opt (Ch (\<lambda>c. c = CHR 0x27)))
         (Seq (Opt (ilit ''s'')) (Rep True 1 is_space))))"

definition ARTICLE :: re where
  "ARTICLE =
     Opt (Alt (Seq (ilit ''the'') (Rep True 1 is_space))
              (Seq (ilit ''a'') (Rep True 1 is_space)))"

definition PIECE_WORD :: re where
  "PIECE_WORD =
     Grp ''piece''
       (Alt (ilit ''king'') (Alt (ilit ''queen'') (Alt (ilit ''rook'')
       (Alt (ilit ''bishop'') (Alt (ilit ''knight'') (ilit ''pawn''))))))"

definition ON :: re where
  "ON = Seq (Opt (Seq (Rep True 1 is_space) (ilit ''on''))) (Rep True 1 is_space)"

definition SQ :: re where
  "SQ = Grp ''square''
          (Seq (Ch (\<lambda>c. in_range (CHR ''a'') (CHR ''h'') (lower_char c)))
               (Ch (in_range (CHR ''1'') (CHR ''8''))))"

definition PIECE_REF_PATTERN :: re where
  "PIECE_REF_PATTERN = Seq COLOR_PREFIX (Seq ARTICLE (Seq PIECE_WORD (Seq ON SQ)))"

text \<open>
  \<^verbatim>\<open>SAN_PIECE_PATTERN = re.compile(r"(?<![a-zA-Z])(?P<symbol>[KQRBNP])(?P<square>[a-h][1-8])(?![a-zA-Z])")\<close>
\<close>

definition SAN_PIECE_PATTERN :: re where
  "SAN_PIECE_PATTERN =
     Seq (NotBehind is_ascii_letter)
    (Seq (Grp ''symbol'' (Ch (\<lambda>c. c \<in> set ''KQRBNP'')))
    (Seq (Grp ''square''
            (Seq (Ch (in_range (CHR ''a'') (CHR ''h''))) (Ch (in_range (CHR ''1'') (CHR ''8'')))))
         (NotAhead is_ascii_letter)))"

definition san_letter_to_name :: "string \<Rightarrow> string option" where
  "san_letter_to_name = map_of
     [(''K'', ''king''), (''Q'', ''queen''), (''R'', ''rook''),
      (''B'', ''bishop''), (''N'', ''knight''), (''P'', ''pawn'')]"

text \<open>
  The two loops of \<open>extract_piece_refs\<close> over the matches, with the list \<open>results\<close>
  and the set \<open>seen\<close>. \<open>None\<close> is an exception the source does not catch: a group that
  took no part in the match (\<open>None.lower()\<close>), a symbol that is no key of
  \<open>san_letter_to_name\<close>.
\<close>

type_synonym ref = "string \<times> string"

fun natural_loop :: "rmatch list \<Rightarrow> ref list \<times> ref set \<Rightarrow> (ref list \<times> ref set) option" where
  "natural_loop [] acc = Some acc"
| "natural_loop (m # ms) (results, seen) =
     (case m_group m ''piece'' of
        None \<Rightarrow> None
      | Some p \<Rightarrow>
          (case m_group m ''square'' of
             None \<Rightarrow> None
           | Some s \<Rightarrow>
               (let key = (lower p, lower s) in
                if key \<notin> seen then natural_loop ms (results @ [key], insert key seen)
                else natural_loop ms (results, seen))))"

fun san_loop :: "rmatch list \<Rightarrow> ref list \<times> ref set \<Rightarrow> (ref list \<times> ref set) option" where
  "san_loop [] acc = Some acc"
| "san_loop (m # ms) (results, seen) =
     (case m_group m ''symbol'' of
        None \<Rightarrow> None
      | Some symb \<Rightarrow>
          (case m_group m ''square'' of
             None \<Rightarrow> None
           | Some s \<Rightarrow>
               (case san_letter_to_name symb of
                  None \<Rightarrow> None
                | Some p \<Rightarrow>
                    (let key = (p, lower s) in
                     if key \<notin> seen then san_loop ms (results @ [key], insert key seen)
                     else san_loop ms (results, seen)))))"

definition extract_piece_refs :: "string \<Rightarrow> ref list option" where
  "extract_piece_refs t =
     (case natural_loop (finditer PIECE_REF_PATTERN t) ([], {}) of
        None \<Rightarrow> None
      | Some acc \<Rightarrow>
          (case san_loop (finditer SAN_PIECE_PATTERN t) acc of
             None \<Rightarrow> None
           | Some (results, seen) \<Rightarrow> Some results))"

section \<open>evaluator.py: hallucination scoring and piece validation\<close>

text \<open>The loop of \<open>hallucination_score\<close> over the references, \<open>worst\<close> being the
  running maximum.\<close>

fun score_loop :: "board \<Rightarrow> ref list \<Rightarrow> nat \<Rightarrow> nat" where
  "score_loop b [] worst = worst"
| "score_loop b ((piece_name, sq_str) # refs) worst =
     (case PIECE_NAMES piece_name of
        None \<Rightarrow> score_loop b refs worst
      | Some pt \<Rightarrow>
          (case parse_square sq_str of
             None \<Rightarrow> score_loop b refs worst
           | Some sq \<Rightarrow>
               (case b sq of
                  Some (bt, bc) \<Rightarrow>
                    (if bt = pt then score_loop b refs worst
                     else score_loop b refs (max worst 1))
                | None \<Rightarrow>
                    (if pieces b pt True @ pieces b pt False \<noteq> []
                     then score_loop b refs (max worst 2)
                     else score_loop b refs (max worst 3)))))"

text \<open>\<open>hallucination_score(response, fen)\<close>; \<open>None\<close> is an exception leaving the
  function.\<close>

definition hallucination_score :: "decoder \<Rightarrow> string \<Rightarrow> string \<Rightarrow> nat option" where
  "hallucination_score Board response fen =
     (case Board fen of
        None \<Rightarrow> Some 0
      | Some b \<Rightarrow>
          (case extract_piece_refs response of
             None \<Rightarrow> None
           | Some refs \<Rightarrow> if refs = [] then Some 0 else Some (score_loop b refs 0)))"

text \<open>The loop of \<open>validate_pieces\<close>.\<close>

fun pieces_loop :: "board \<Rightarrow> ref list \<Rightarrow> bool" where
  "pieces_loop b [] = True"
| "pieces_loop b ((piece_name, sq_str) # refs) =
     (case PIECE_NAMES piece_name of
        None \<Rightarrow> False
      | Some pt \<Rightarrow>
          (case parse_square sq_str of
             None \<Rightarrow> False
           | Some sq \<Rightarrow>
               (case b sq of
                  None \<Rightarrow> False
                | Some (bt, bc) \<Rightarrow> if bt \<noteq> pt then False else pieces_loop b refs)))"

definition validate_pieces :: "decoder \<Rightarrow> string \<Rightarrow> string \<Rightarrow> bool option" where
  "validate_pieces Board refs fen =
     (let refs' = lower (strip refs) in
      if refs' = [] \<or> refs' = ''none'' then Some True
      else (case Board fen of
              None \<Rightarrow> Some False
            | Some b \<Rightarrow>
                (case extract_piece_refs refs' of
                   None \<Rightarrow> None
                 | Some piece_refs \<Rightarrow>
                     if piece_refs = [] then Some True else Some (pieces_loop b piece_refs))))"



text \<open>
  The order of the references, as the specification words it and as the two loops produce
  it. \<open>natural_claims\<close> and \<open>san_claims\<close> list what each grammar finds, each claim with the
  position where its match starts. \<open>claims_by_position\<close> merges the two lists by that
  position and keeps the first occurrence of each claim (the specification's "first-seen
  order across both grammars"); \<open>claims_by_grammar\<close> puts the natural-language claims
  before the compact ones.
\<close>

fun dedup_from :: "'a set \<Rightarrow> 'a list \<Rightarrow> 'a list" where
  "dedup_from seen [] = []"
| "dedup_from seen (x # xs) =
     (if x \<in> seen then dedup_from seen xs else x # dedup_from (insert x seen) xs)"

definition natural_key :: "rmatch \<Rightarrow> ref option" where
  "natural_key m =
     (case m_group m ''piece'' of
        None \<Rightarrow> None
      | Some p \<Rightarrow> (case m_group m ''square'' of None \<Rightarrow> None | Some s \<Rightarrow> Some (lower p, lower s)))"

definition san_key :: "rmatch \<Rightarrow> ref option" where
  "san_key m =
     (case m_group m ''symbol'' of
        None \<Rightarrow> None
      | Some symb \<Rightarrow>
          (case m_group m ''square'' of
             None \<Rightarrow> None
           | Some s \<Rightarrow>
               (case san_letter_to_name symb of None \<Rightarrow> None | Some p \<Rightarrow> Some (p, lower s))))"

definition positioned :: "(rmatch \<Rightarrow> ref option) \<Rightarrow> rmatch list \<Rightarrow> (nat \<times> ref) list" where
  "positioned key ms =
     List.map_filter (\<lambda>m. map_option (\<lambda>k. (length (m_before m), k)) (key m)) ms"

definition natural_claims :: "string \<Rightarrow> (nat \<times> ref) list" where
  "natural_claims t = positioned natural_key (finditer PIECE_REF_PATTERN t)"

definition san_claims :: "string \<Rightarrow> (nat \<times> ref) list" where
  "san_claims t = positioned san_key (finditer SAN_PIECE_PATTERN t)"

definition claims_by_position :: "string \<Rightarrow> ref list" where
  "claims_by_position t =
     dedup_from {} (map snd (sort_key fst (natural_claims t @ san_claims t)))"

definition claims_by_grammar :: "string \<Rightarrow> ref list" where
  "claims_by_grammar t = dedup_from {} (map snd (natural_claims t @ san_claims t))"

section \<open>Example positions\<close>

text \<open>
  Two positions the properties below are evaluated at, with a decoder that knows exactly
  their position strings: the start position after 1.e4, and king and bishop against a
  lone king.
\<close>

definition after_e4_fen :: string where
  "after_e4_fen = ''rnbqkbnr/pppppppp/8/8/4P3/8/PPPP1PPP/RNBQKBNR b KQkq - 0 1''"

definition after_e4_board :: board where
  "after_e4_board = map_of
     [(0, (ROOK, True)), (1, (KNIGHT, True)), (2, (BISHOP, True)), (3, (QUEEN, True)),
      (4, (KING, True)), (5, (BISHOP, True)), (6, (KNIGHT, True)), (7, (ROOK, True)),
      (8, (PAWN, True)), (9, (PAWN, True)), (10, (PAWN, True)), (11, (PAWN, True)),
      (13, (PAWN, True)), (14, (PAWN, True)), (15, (PAWN, True)), (28, (PAWN, True)),
      (48, (PAWN, False)), (49, (PAWN, False)), (50, (PAWN, False)), (51, (PAWN, False)),
      (52, (PAWN, False)), (53, (PAWN, False)), (54, (PAWN, False)), (55, (PAWN, False)),
      (56, (ROOK, False)), (57, (KNIGHT, False)), (58, (BISHOP, False)), (59, (QUEEN, False)),
      (60, (KING, False)), (61, (BISHOP, False)), (62, (KNIGHT, False)), (63, (ROOK, False))]"

definition kbk_fen :: string where
  "kbk_fen = ''4k3/8/8/8/8/8/8/3BK3 w - - 0 1''"

definition kbk_board :: board where
  "kbk_board = map_of [(3, (BISHOP, True)), (4, (KING, True)), (60, (KING, False))]"

definition example_decoder :: decoder where
  "example_decoder fen =
     (if fen = after_e4_fen then Some after_e4_board
      else if fen = kbk_fen then Some kbk_board
      else None)"

section \<open>Groups of a match\<close>










section \<open>What the two reference patterns can capture\<close>





































section \<open>The score loop computes the worst tier\<close>











section \<open>Properties of the hallucination score and of piece validation\<close>



text \<open>
  C4. When the position string cannot be decoded (\<open>chess.Board(fen)\<close> raises ValueError),
  \<open>hallucination_score\<close> returns severity 0, whatever the response text claims.
\<close>

theorem hallucination_score_malformed_position:
  "Board fen = None \<Longrightarrow> hallucination_score Board response fen = Some 0"
  by (simp add: hallucination_score_def)

theorem hallucination_score_malformed_position_witness:
  "(\<lambda>f. None) ''not a position'' = (None :: board option) \<and>
   hallucination_score (\<lambda>f. None) ''phantom queen d5'' ''not a position'' = Some 0"
  using hallucination_score_malformed_position
    [of "\<lambda>f. None" "''not a position''" "''phantom queen d5''"]
  by simp

text \<open>
  C10. \<open>validate_pieces\<close> treats a position it cannot decode differently by the
  references: when the references, stripped and lowercased, are empty or \<open>none\<close>, it
  returns True without decoding the position; for any other references over a position
  that does not decode it returns False; and over a position that decodes it returns
  True whenever no piece reference is parsed from the (stripped, lowercased) references.
\<close>

theorem validate_pieces_undecodable_asymmetry:
  "(lower (strip refs) = [] \<or> lower (strip refs) = ''none''
      \<longrightarrow> validate_pieces Board refs fen = Some True) \<and>
   (lower (strip refs) \<noteq> [] \<and> lower (strip refs) \<noteq> ''none'' \<and> Board fen = None
      \<longrightarrow> validate_pieces Board refs fen = Some False) \<and>
   (Board fen \<noteq> None \<and> extract_piece_refs (lower (strip refs)) = Some []
      \<longrightarrow> validate_pieces Board refs fen = Some True)"
  by (auto simp: validate_pieces_def Let_def)

theorem validate_pieces_undecodable_asymmetry_witness:
  "lower (strip ''  None '') = ''none'' \<and>
   validate_pieces example_decoder ''  None '' ''garbage'' = Some True \<and>
   lower (strip ''e4'') = ''e4'' \<and> example_decoder ''garbage'' = None \<and>
   validate_pieces example_decoder ''e4'' ''garbage'' = Some False \<and>
   example_decoder kbk_fen \<noteq> None \<and>
   extract_piece_refs (lower (strip ''Central pawns'')) = Some [] \<and>
   validate_pieces example_decoder ''Central pawns'' kbk_fen = Some True"
proof -
  have h1: "lower (strip ''  None '') = ''none''" by code_simp
  have h2: "lower (strip ''e4'') = ''e4''" by code_simp
  have h3: "example_decoder ''garbage'' = None"
    by (simp add: example_decoder_def kbk_fen_def after_e4_fen_def)
  have h4: "example_decoder kbk_fen \<noteq> None"
    by (simp add: example_decoder_def kbk_fen_def after_e4_fen_def)
  have h5: "extract_piece_refs (lower (strip ''Central pawns'')) = Some []" by code_simp
  from validate_pieces_undecodable_asymmetry [of "''  None ''" example_decoder "''garbage''"] h1
  have c1: "validate_pieces example_decoder ''  None '' ''garbage'' = Some True" by simp
  from validate_pieces_undecodable_asymmetry [of "''e4''" example_decoder "''garbage''"] h2 h3
  have c2: "validate_pieces example_decoder ''e4'' ''garbage'' = Some False" by simp
  from validate_pieces_undecodable_asymmetry [of "''Central pawns''" example_decoder kbk_fen] h4 h5
  have c3: "validate_pieces example_decoder ''Central pawns'' kbk_fen = Some True"
    by blast
  from h1 h2 h3 h4 h5 c1 c2 c3 show ?thesis by (intro conjI)
qed

end
